theory Spec2Isabelle
  imports Complex_Main "HOL-Library.Sublist"
begin

section \<open>Text\<close>

text \<open>
  Python text is modelled as \<^typ>\<open>string\<close>, read as ASCII. The operations of \<open>str\<close> that
  \<^verbatim>\<open>export_and_adapt.py\<close> uses are written out: \<^verbatim>\<open>sep.join(xs)\<close>,
  \<^verbatim>\<open>s.rstrip(',')\<close>, \<^verbatim>\<open>s.upper()\<close>, \<^verbatim>\<open>s.replace(c, new)\<close> for a one-character
  \<^verbatim>\<open>c\<close>, \<^verbatim>\<open>s.endswith(suf)\<close> and \<^verbatim>\<open>sub in s\<close>.
\<close>

fun join :: "string \<Rightarrow> string list \<Rightarrow> string" where
  "join sep [] = []"
| "join sep [x] = x"
| "join sep (x # y # ys) = x @ sep @ join sep (y # ys)"

definition rstrip :: "char \<Rightarrow> string \<Rightarrow> string" where
  "rstrip c s = rev (dropWhile (\<lambda>d. d = c) (rev s))"

definition upper_char :: "char \<Rightarrow> char" where
  "upper_char c =
     (case map_of (zip ''abcdefghijklmnopqrstuvwxyz'' ''ABCDEFGHIJKLMNOPQRSTUVWXYZ'') c of
        Some u \<Rightarrow> u
      | None \<Rightarrow> c)"

definition upper :: "string \<Rightarrow> string" where
  "upper s = map upper_char s"

definition replace :: "char \<Rightarrow> string \<Rightarrow> string \<Rightarrow> string" where
  "replace old new s = concat (map (\<lambda>c. if c = old then new else [c]) s)"

definition endswith :: "string \<Rightarrow> string \<Rightarrow> bool" where
  "endswith s suf = suffix suf s"

definition contains :: "string \<Rightarrow> string \<Rightarrow> bool" where
  "contains s sub = sublist sub s"

definition newline :: string where
  "newline = [CHR 0x0A]"

definition spaces :: "nat \<Rightarrow> string" where
  "spaces n = replicate n CHR '' ''"

definition path_join :: "string \<Rightarrow> string \<Rightarrow> string" where
  \<comment> \<open>\<^verbatim>\<open>os.path.join(a, b)\<close> on POSIX\<close>
  "path_join a b =
     (if b \<noteq> [] \<and> hd b = CHR ''/'' then b
      else if a = [] \<or> last a = CHR ''/'' then a @ b
      else a @ ''/'' @ b)"


section \<open>Catalog\<close>

text \<open>
  One row of \<^verbatim>\<open>PRAGMA table_info(t)\<close>, as the script reads it: \<^verbatim>\<open>col[1]\<close> the name,
  \<^verbatim>\<open>col[2]\<close> the declared type (empty when none was declared), \<^verbatim>\<open>col[3]\<close> the NOT NULL
  flag, \<^verbatim>\<open>col[4]\<close> the default literal or \<^verbatim>\<open>None\<close>, and \<^verbatim>\<open>col[5]\<close> which is 0 for a
  column outside the primary key and otherwise the 1-based position of the column
  within the primary key. The script tests \<^verbatim>\<open>col[3]\<close> and \<^verbatim>\<open>col[5]\<close> for truth
  (non-zero) and also compares \<^verbatim>\<open>col[5] == 1\<close>, so both stay numbers here.
\<close>

record column =
  col_name :: string
  col_type :: string
  not_null :: nat
  dflt_value :: "string option"
  pk :: nat

definition tables_of_master :: "string list \<Rightarrow> string list" where
  \<comment> \<open>line 34: the names in \<^verbatim>\<open>sqlite_master\<close>, without \<^verbatim>\<open>sqlite_sequence\<close>\<close>
  "tables_of_master names = filter (\<lambda>n. n \<noteq> ''sqlite_sequence'') names"

definition move_companies_first :: "string list \<Rightarrow> string list" where
  \<comment> \<open>lines 69-71: \<^verbatim>\<open>tables.remove\<close> deletes the first occurrence only\<close>
  "move_companies_first tables =
     (if ''companies'' \<in> set tables
      then ''companies'' # remove1 ''companies'' tables
      else tables)"


section \<open>Schema translation\<close>

definition map_sqlite_to_postgres :: "string \<Rightarrow> nat \<Rightarrow> string" where
  "map_sqlite_to_postgres sqlite_type is_pk =
     (let type_map =
        [''INTEGER'' \<mapsto> (if is_pk \<noteq> 0 then ''BIGSERIAL'' else ''BIGINT''),
         ''TEXT'' \<mapsto> ''TEXT'',
         ''REAL'' \<mapsto> ''DOUBLE PRECISION'',
         ''DATETIME'' \<mapsto> ''TIMESTAMP WITH TIME ZONE'',
         '''' \<mapsto> ''TEXT'']
      in case type_map (upper sqlite_type) of Some t \<Rightarrow> t | None \<Rightarrow> ''TEXT'')"

definition pk_columns :: "column list \<Rightarrow> string list" where
  \<comment> \<open>line 102\<close>
  "pk_columns columns = map col_name (filter (\<lambda>col. pk col = 1) columns)"

definition column_line :: "column \<Rightarrow> string" where
  \<comment> \<open>lines 105-110\<close>
  "column_line col =
     (let is_pk = pk col;
          pg_type = map_sqlite_to_postgres (col_type col) is_pk;
          constraints = (if not_null col \<noteq> 0 \<and> is_pk = 0 then '' NOT NULL'' else '''');
          constraints' =
            (case dflt_value col of
               Some d \<Rightarrow> if is_pk = 0 then constraints @ '' DEFAULT '' @ d else constraints
             | None \<Rightarrow> constraints)
      in spaces 4 @ col_name col @ '' '' @ pg_type @ constraints' @ '','')"

definition pkey_line :: "string \<Rightarrow> string list \<Rightarrow> string" where
  \<comment> \<open>line 113\<close>
  "pkey_line table pks =
     spaces 4 @ ''CONSTRAINT '' @ table @ ''_pkey PRIMARY KEY ('' @ join '', '' pks @ '')''"

definition table_sql :: "string \<Rightarrow> column list \<Rightarrow> string list" where
  \<comment> \<open>lines 101-117: the lines of one CREATE TABLE statement\<close>
  "table_sql table columns =
     (let ls = (''CREATE TABLE IF NOT EXISTS '' @ table @ '' ('') # map column_line columns;
          ls' = (if pk_columns columns \<noteq> []
                 then ls @ [pkey_line table (pk_columns columns)]
                 else butlast ls @ [rstrip CHR '','' (last ls)])
      in ls' @ ['');''])"

definition create_table :: "string \<Rightarrow> column list \<Rightarrow> string" where
  \<comment> \<open>line 118\<close>
  "create_table table columns = join newline (table_sql table columns)"


section \<open>Load script\<close>

definition delete_orphans :: "string \<Rightarrow> string" where
  \<comment> \<open>lines 127-131\<close>
  "delete_orphans table =
     newline @ spaces 12 @ ''DELETE FROM staging_'' @ table @
     newline @ spaces 12 @ ''WHERE company_id IS NOT NULL'' @
     newline @ spaces 12 @ ''AND company_id NOT IN (SELECT company_id FROM companies);'' @
     newline @ spaces 12"

definition upsert :: "string \<Rightarrow> column list \<Rightarrow> string" where
  \<comment> \<open>lines 132-137\<close>
  "upsert table columns =
     newline @ spaces 8 @ ''INSERT INTO '' @ table @
     newline @ spaces 8 @ ''SELECT * FROM staging_'' @ table @
     newline @ spaces 8 @ ''ON CONFLICT ('' @ join '', '' (pk_columns columns) @ '') DO UPDATE SET'' @
     newline @ spaces 8 @
       join '', ''
         (map (\<lambda>col. col_name col @ '' = EXCLUDED.'' @ col_name col)
            (filter (\<lambda>col. col_name col \<notin> set (pk_columns columns)) columns)) @ '';'' @
     newline @ spaces 8"

definition import_block :: "string \<Rightarrow> string \<Rightarrow> column list \<Rightarrow> string list" where
  \<comment> \<open>lines 121-140: what one table appends to \<^verbatim>\<open>import_sql\<close>\<close>
  "import_block csv_path table columns =
     [''CREATE TABLE IF NOT EXISTS staging_'' @ table @ '' (LIKE '' @ table @ '');'',
      ''TRUNCATE staging_'' @ table @ '';'',
      [CHR 0x5C] @ ''COPY staging_'' @ table @ '' FROM '' @ [CHR 0x27] @ csv_path @ [CHR 0x27] @
        '' WITH (FORMAT csv, HEADER true, NULL '' @ [CHR 0x27, CHR 0x27] @ '');''] @
     (if pk_columns columns \<noteq> []
      then (let has_company_id = (\<exists>col \<in> set columns. col_name col = ''company_id'')
            in (if table \<noteq> ''companies'' \<and> has_company_id then [delete_orphans table] else []) @
               [upsert table columns])
      else [''INSERT INTO '' @ table @ '' SELECT * FROM staging_'' @ table @ '';'']) @
     [''DROP TABLE staging_'' @ table @ '';'']"


section \<open>Python values\<close>

text \<open>
  A cell of a fetched row is \<^verbatim>\<open>None\<close>, an \<^verbatim>\<open>int\<close>, a \<^verbatim>\<open>float\<close>, a \<^verbatim>\<open>str\<close> or
  \<^verbatim>\<open>bytes\<close>. A float is an IEEE binary64 value: a finite one is kept as the rational it
  denotes (the sign of zero is not kept: \<^verbatim>\<open>int\<close> and truth testing do not see it), next
  to the two infinities and NaN. An exception that leaves a function is the \<open>Inl\<close> of its
  result.
\<close>

datatype pyfloat = Finite rat | PosInf | NegInf | NaN

datatype pyval = PNone | PInt int | PFloat pyfloat | PStr string | PBytes string

datatype exn = ValueError | TypeError | OverflowError

definition truthy :: "pyval \<Rightarrow> bool" where
  "truthy v =
     (case v of
        PNone \<Rightarrow> False
      | PInt n \<Rightarrow> n \<noteq> 0
      | PFloat f \<Rightarrow> f \<noteq> Finite 0
      | PStr s \<Rightarrow> s \<noteq> []
      | PBytes b \<Rightarrow> b \<noteq> [])"

definition is_str :: "pyval \<Rightarrow> bool" where
  "is_str v = (case v of PStr s \<Rightarrow> True | _ \<Rightarrow> False)"


subsection \<open>Rounding to binary64\<close>

fun bit_length :: "nat \<Rightarrow> nat" where
  "bit_length n = (if n = 0 then 0 else Suc (bit_length (n div 2)))"

declare bit_length.simps [simp del]

definition pow2 :: "int \<Rightarrow> rat" where
  "pow2 e = (if 0 \<le> e then 2 ^ nat e else 1 / 2 ^ nat (- e))"

definition floor_log2 :: "rat \<Rightarrow> int" where
  \<comment> \<open>for \<open>0 < q\<close>: the \<open>p\<close> with \<open>2 ^ p \<le> q < 2 ^ (p + 1)\<close>\<close>
  "floor_log2 q =
     (if 1 \<le> q then int (bit_length (nat \<lfloor>q\<rfloor>)) - 1
      else - int (bit_length (nat (\<lceil>1 / q\<rceil> - 1))))"

definition round_half_even :: "rat \<Rightarrow> int" where
  "round_half_even x =
     (let f = \<lfloor>x\<rfloor>; r = x - of_int f
      in if r < 1 / 2 then f
         else if 1 / 2 < r then f + 1
         else if even f then f else f + 1)"

definition round_pos :: "rat \<Rightarrow> rat" where
  \<comment> \<open>the binary64 value nearest to \<open>q > 0\<close>, ties to even, overflow apart:
      53 significant bits, least exponent \<open>-1074\<close>\<close>
  "round_pos q =
     (let e = max (floor_log2 q - 52) (- 1074)
      in of_int (round_half_even (q / pow2 e)) * pow2 e)"

definition round_double :: "rat \<Rightarrow> pyfloat" where
  \<comment> \<open>a magnitude of \<open>2 ^ 1024 - 2 ^ 970\<close> or more, half a unit in the last place above
      the largest finite value, rounds to an infinity\<close>
  "round_double q =
     (if q = 0 then Finite 0
      else if 2 ^ 1024 - 2 ^ 970 \<le> \<bar>q\<bar> then (if 0 < q then PosInf else NegInf)
      else Finite (if 0 < q then round_pos q else - round_pos (- q)))"


subsection \<open>\<^verbatim>\<open>float(x)\<close> and \<^verbatim>\<open>int(f)\<close>\<close>

definition is_space :: "char \<Rightarrow> bool" where
  "is_space c = (let n = (of_char c :: nat) in (9 \<le> n \<and> n \<le> 13) \<or> n = 32)"

definition is_digit :: "char \<Rightarrow> bool" where
  "is_digit c = (let n = (of_char c :: nat) in 48 \<le> n \<and> n \<le> 57)"

definition digit_val :: "char \<Rightarrow> nat" where
  "digit_val c = of_char c - 48"

definition digits_val :: "string \<Rightarrow> nat" where
  "digits_val ds = foldl (\<lambda>a c. 10 * a + digit_val c) 0 ds"

definition strip :: "string \<Rightarrow> string" where
  "strip s = rev (dropWhile is_space (rev (dropWhile is_space s)))"

fun underscores_ok :: "char \<Rightarrow> string \<Rightarrow> bool" where
  \<comment> \<open>an underscore only between two digits; the first argument is the character before\<close>
  "underscores_ok prev [] = (prev \<noteq> CHR ''_'')"
| "underscores_ok prev (c # cs) =
     ((if c = CHR ''_'' then is_digit prev else (prev = CHR ''_'' \<longrightarrow> is_digit c))
      \<and> underscores_ok c cs)"

definition split_sign :: "string \<Rightarrow> bool \<times> string" where
  "split_sign s =
     (case s of
        c # cs \<Rightarrow> if c = CHR ''-'' then (True, cs) else if c = CHR ''+'' then (False, cs)
                  else (False, s)
      | [] \<Rightarrow> (False, s))"

definition parse_exponent :: "string \<Rightarrow> int option" where
  \<comment> \<open>what may follow the digits of a number: nothing, or \<^verbatim>\<open>e\<close>, a sign and digits\<close>
  "parse_exponent s =
     (case s of
        [] \<Rightarrow> Some 0
      | c # cs \<Rightarrow>
          if c = CHR ''e'' \<or> c = CHR ''E'' then
            (let (neg, ds) = split_sign cs
             in if ds \<noteq> [] \<and> list_all is_digit ds
                then Some (if neg then - int (digits_val ds) else int (digits_val ds))
                else None)
          else None)"

definition parse_number :: "string \<Rightarrow> rat option" where
  "parse_number s =
     (let ip = takeWhile is_digit s; r1 = dropWhile is_digit s;
          (fp, r2) = (case r1 of
                        c # cs \<Rightarrow> if c = CHR ''.''
                                  then (takeWhile is_digit cs, dropWhile is_digit cs)
                                  else ([], r1)
                      | [] \<Rightarrow> ([], r1))
      in if ip = [] \<and> fp = [] then None
         else (case parse_exponent r2 of
                 None \<Rightarrow> None
               | Some ex \<Rightarrow>
                   (let k = ex - int (length fp); m = of_nat (digits_val (ip @ fp))
                    in Some (if 0 \<le> k then m * 10 ^ nat k else m / 10 ^ nat (- k)))))"

definition float_of_string :: "string \<Rightarrow> exn + pyfloat" where
  \<comment> \<open>\<^verbatim>\<open>float(s)\<close> for text: surrounding white space, a sign, then \<^verbatim>\<open>inf\<close>,
      \<^verbatim>\<open>infinity\<close> or \<^verbatim>\<open>nan\<close> in any case, or a decimal number, correctly rounded;
      a number too large is an infinity, not an error\<close>
  "float_of_string s =
     (let t = strip s
      in if \<not> underscores_ok CHR 0x00 t then Inl ValueError
         else (let (neg, r) = split_sign (filter (\<lambda>c. c \<noteq> CHR ''_'') t)
               in if upper r = ''INF'' \<or> upper r = ''INFINITY''
                  then Inr (if neg then NegInf else PosInf)
                  else if upper r = ''NAN'' then Inr NaN
                  else (case parse_number r of
                          None \<Rightarrow> Inl ValueError
                        | Some q \<Rightarrow> Inr (round_double (if neg then - q else q)))))"

definition py_float :: "pyval \<Rightarrow> exn + pyfloat" where
  "py_float v =
     (case v of
        PNone \<Rightarrow> Inl TypeError
      | PInt n \<Rightarrow> (case round_double (of_int n) of
                     Finite q \<Rightarrow> Inr (Finite q)
                   | _ \<Rightarrow> Inl OverflowError)
      | PFloat f \<Rightarrow> Inr f
      | PStr s \<Rightarrow> float_of_string s
      | PBytes b \<Rightarrow> float_of_string b)"

definition py_int :: "pyfloat \<Rightarrow> exn + int" where
  \<comment> \<open>\<^verbatim>\<open>int(f)\<close> truncates towards zero\<close>
  "py_int f =
     (case f of
        Finite q \<Rightarrow> Inr (if 0 \<le> q then \<lfloor>q\<rfloor> else \<lceil>q\<rceil>)
      | NaN \<Rightarrow> Inl ValueError
      | _ \<Rightarrow> Inl OverflowError)"


section \<open>Cleaning\<close>

definition clean_integer :: "pyval \<Rightarrow> exn + pyval" where
  \<comment> \<open>lines 46-53; the \<^verbatim>\<open>except\<close> clause names \<^verbatim>\<open>ValueError\<close> and \<^verbatim>\<open>TypeError\<close> only\<close>
  "clean_integer v =
     (if v = PNone then Inr PNone
      else (case (case py_float v of Inl e \<Rightarrow> Inl e | Inr f \<Rightarrow> py_int f) of
              Inr val \<Rightarrow> Inr (if - (2 ^ 63) \<le> val \<and> val \<le> 2 ^ 63 - 1 then PInt val else PNone)
            | Inl ValueError \<Rightarrow> Inr PNone
            | Inl TypeError \<Rightarrow> Inr PNone
            | Inl e \<Rightarrow> Inl e))"


section \<open>Timestamps\<close>

text \<open>
  \<^verbatim>\<open>datetime.fromisoformat\<close> and \<^verbatim>\<open>datetime.strftime\<close> belong to the Python library. They
  are modelled on CPython 3.11 and 3.12, whose parser reads a zero-terminated buffer by
  position; the model keeps the positions, and a read past the end gives the zero
  character. \<^verbatim>\<open>%Y\<close> is taken as documented, four digits padded with zeros.
  A datetime keeps its fields and, when it is aware, the offset of its fixed time zone
  in microseconds.
\<close>

record pydatetime =
  dt_year :: nat
  dt_month :: nat
  dt_day :: nat
  dt_hour :: nat
  dt_minute :: nat
  dt_second :: nat
  dt_microsecond :: nat
  dt_utcoffset :: "int option"


subsection \<open>Calendar\<close>

definition is_leap :: "int \<Rightarrow> bool" where
  "is_leap y = (y mod 4 = 0 \<and> (y mod 100 \<noteq> 0 \<or> y mod 400 = 0))"

definition days_in_month_table :: "int list" where
  "days_in_month_table = [31, 28, 31, 30, 31, 30, 31, 31, 30, 31, 30, 31]"

definition days_before_month_table :: "int list" where
  "days_before_month_table = [0, 31, 59, 90, 120, 151, 181, 212, 243, 273, 304, 334]"

definition days_in_month :: "int \<Rightarrow> nat \<Rightarrow> int" where
  \<comment> \<open>for a month in \<open>1..12\<close>\<close>
  "days_in_month y m =
     (if m = 2 \<and> is_leap y then 29 else days_in_month_table ! (m - 1))"

definition days_before_year :: "int \<Rightarrow> int" where
  "days_before_year y' = (let y = y' - 1 in y * 365 + y div 4 - y div 100 + y div 400)"

definition days_before_month :: "int \<Rightarrow> nat \<Rightarrow> int" where
  "days_before_month y m =
     days_before_month_table ! (m - 1) + (if 2 < m \<and> is_leap y then 1 else 0)"

definition ymd_to_ord :: "int \<Rightarrow> nat \<Rightarrow> int \<Rightarrow> int" where
  "ymd_to_ord y m d = days_before_year y + days_before_month y m + d"

definition ord_to_ymd :: "int \<Rightarrow> int \<times> int \<times> int" where
  "ord_to_ymd ordinal =
     (let n0 = ordinal - 1;
          n400 = n0 div 146097; n1 = n0 mod 146097;
          n100 = n1 div 36524; n2 = n1 mod 36524;
          n4 = n2 div 1461; n3 = n2 mod 1461;
          n1y = n3 div 365; n = n3 mod 365;
          y = n400 * 400 + 1 + n100 * 100 + n4 * 4 + n1y
      in if n1y = 4 \<or> n100 = 4 then (y - 1, 12, 31)
         else (let leapyear = (n1y = 3 \<and> (n4 \<noteq> 24 \<or> n100 = 3));
                   m = (n + 50) div 32;
                   preceding = days_before_month_table ! nat (m - 1) +
                               (if 2 < m \<and> leapyear then 1 else 0)
               in if n < preceding
                  then (y, m - 1,
                        n - (preceding - (days_in_month_table ! nat (m - 2) +
                                          (if m - 1 = 2 \<and> leapyear then 1 else 0))) + 1)
                  else (y, m, n - preceding + 1)))"

definition weekday :: "int \<Rightarrow> nat \<Rightarrow> int \<Rightarrow> int" where
  "weekday y m d = (ymd_to_ord y m d + 6) mod 7"

definition iso_week1_monday :: "int \<Rightarrow> int" where
  "iso_week1_monday y =
     (let first_day = ymd_to_ord y 1 1;
          first_weekday = (first_day + 6) mod 7;
          week1_monday = first_day - first_weekday
      in if 3 < first_weekday then week1_monday + 7 else week1_monday)"

definition iso_to_ymd :: "nat \<Rightarrow> nat \<Rightarrow> nat \<Rightarrow> (int \<times> int \<times> int) option" where
  \<comment> \<open>a year below 1 never leads to a date of year 1 or later, so it is refused at once\<close>
  "iso_to_ymd iso_year iso_week iso_day =
     (if iso_year < 1 \<or> 9999 < iso_year then None
      else if (iso_week = 0 \<or> 53 \<le> iso_week) \<and>
              \<not> (iso_week = 53 \<and>
                 (weekday (int iso_year) 1 1 = 3 \<or>
                  (weekday (int iso_year) 1 1 = 2 \<and> is_leap (int iso_year))))
      then None
      else if iso_day = 0 \<or> 8 \<le> iso_day then None
      else Some (ord_to_ymd (iso_week1_monday (int iso_year) +
                             (int iso_week - 1) * 7 + int iso_day - 1)))"


subsection \<open>Construction\<close>

definition new_timezone :: "int \<Rightarrow> exn + int" where
  \<comment> \<open>\<^verbatim>\<open>timezone(offset)\<close>: strictly between minus and plus 24 hours\<close>
  "new_timezone off =
     (if - 86400000000 < off \<and> off < 86400000000 then Inr off else Inl ValueError)"

definition new_datetime ::
  "int \<Rightarrow> int \<Rightarrow> int \<Rightarrow> nat \<Rightarrow> nat \<Rightarrow> nat \<Rightarrow> nat \<Rightarrow> int option \<Rightarrow> exn + pydatetime" where
  "new_datetime y m d hh mm ss us tz =
     (if y < 1 \<or> 9999 < y then Inl ValueError
      else if m < 1 \<or> 12 < m then Inl ValueError
      else if d < 1 \<or> days_in_month y (nat m) < d then Inl ValueError
      else if 23 < hh then Inl ValueError
      else if 59 < mm then Inl ValueError
      else if 59 < ss then Inl ValueError
      else if 999999 < us then Inl ValueError
      else Inr \<lparr>dt_year = nat y, dt_month = nat m, dt_day = nat d, dt_hour = hh,
                dt_minute = mm, dt_second = ss, dt_microsecond = us, dt_utcoffset = tz\<rparr>)"


subsection \<open>\<^verbatim>\<open>datetime.fromisoformat\<close>\<close>

definition char_at :: "string \<Rightarrow> nat \<Rightarrow> char" where
  "char_at s i = (if i < length s then s ! i else CHR 0x00)"

definition parse_digits :: "string \<Rightarrow> nat \<Rightarrow> nat \<Rightarrow> (nat \<times> nat) option" where
  \<comment> \<open>\<open>n\<close> digits from position \<open>p\<close>: their value and the position after them\<close>
  "parse_digits s p n =
     (let ds = take n (drop p s)
      in if length ds = n \<and> list_all is_digit ds then Some (digits_val ds, p + n) else None)"

definition find_isoformat_datetime_separator :: "string \<Rightarrow> nat option" where
  \<comment> \<open>for a string of 7 characters or more\<close>
  "find_isoformat_datetime_separator dtstr =
     (let len = length dtstr
      in if len = 7 then Some 7
         else if char_at dtstr 4 = CHR ''-'' then
           (if char_at dtstr 5 = CHR ''W'' then
              (if len < 8 then None
               else if 8 < len \<and> char_at dtstr 8 = CHR ''-'' then
                 (if len = 9 then None
                  else if 10 < len \<and> is_digit (char_at dtstr 10) then Some 8
                  else Some 10)
               else Some 8)
            else Some 10)
         else if char_at dtstr 4 = CHR ''W'' then
           (let idx = 7 + length (takeWhile is_digit (drop 7 dtstr))
            in if idx < 9 then Some idx
               else if idx mod 2 = 0 then Some 7 else Some 8)
         else Some 8)"

definition parse_isoformat_date :: "string \<Rightarrow> nat \<Rightarrow> (int \<times> int \<times> int) option" where
  "parse_isoformat_date dtstr len =
     (case parse_digits dtstr 0 4 of
        None \<Rightarrow> None
      | Some (y, p0) \<Rightarrow>
          (let uses_separator = (char_at dtstr p0 = CHR ''-'');
               p1 = (if uses_separator then p0 + 1 else p0)
           in if char_at dtstr p1 = CHR ''W'' then
                (case parse_digits dtstr (p1 + 1) 2 of
                   None \<Rightarrow> None
                 | Some (iso_week, p2) \<Rightarrow>
                     if p2 < len then
                       (if uses_separator \<and> char_at dtstr p2 \<noteq> CHR ''-'' then None
                        else (case parse_digits dtstr (if uses_separator then p2 + 1 else p2) 1 of
                                None \<Rightarrow> None
                              | Some (iso_day, p3) \<Rightarrow> iso_to_ymd y iso_week iso_day))
                     else iso_to_ymd y iso_week 1)
              else
                (case parse_digits dtstr p1 2 of
                   None \<Rightarrow> None
                 | Some (m, p2) \<Rightarrow>
                     if uses_separator \<and> char_at dtstr p2 \<noteq> CHR ''-'' then None
                     else (case parse_digits dtstr (if uses_separator then p2 + 1 else p2) 2 of
                             None \<Rightarrow> None
                           | Some (d, p3) \<Rightarrow> Some (int y, int m, int d)))))"

datatype hms_exit = Return bool | Fraction nat

function hms_loop ::
  "string \<Rightarrow> nat \<Rightarrow> nat \<Rightarrow> nat \<Rightarrow> bool \<Rightarrow> nat list \<Rightarrow> (nat list \<times> hms_exit) option" where
  "hms_loop s p_end i p has_separator vals =
     (if 3 \<le> i then Some (vals, Fraction p)
      else (case parse_digits s p 2 of
              None \<Rightarrow> None
            | Some (v, p1) \<Rightarrow>
                (let c = char_at s p1; p2 = p1 + 1;
                     has_sep = (if i = 0 then c = CHR '':'' else has_separator);
                     vals' = vals[i := v]
                 in if p_end \<le> p2 then Some (vals', Return (c \<noteq> CHR 0x00))
                    else if has_sep \<and> c = CHR '':'' then hms_loop s p_end (i + 1) p2 has_sep vals'
                    else if c = CHR ''.'' \<or> c = CHR '','' then Some (vals', Fraction p2)
                    else if \<not> has_sep then hms_loop s p_end (i + 1) (p2 - 1) has_sep vals'
                    else None)))"
  by pat_completeness auto
termination
  by (relation "measure (\<lambda>(s, p_end, i, p, has_separator, vals). 3 - i)") auto

declare hms_loop.simps [simp del]

definition parse_hh_mm_ss_ff :: "string \<Rightarrow> nat \<Rightarrow> nat \<Rightarrow> (bool \<times> nat list) option" where
  \<comment> \<open>hours, minutes, seconds and microseconds read between positions \<open>p\<close> and \<open>p_end\<close>;
      the flag tells that the text goes on after what was read\<close>
  "parse_hh_mm_ss_ff s p p_end =
     (case hms_loop s p_end 0 p True [0, 0, 0] of
        None \<Rightarrow> None
      | Some (vals, Return rv) \<Rightarrow> Some (rv, vals @ [0])
      | Some (vals, Fraction q) \<Rightarrow>
          (let len_remains = p_end - q; to_parse = min 6 len_remains
           in case parse_digits s q to_parse of
                None \<Rightarrow> None
              | Some (us, q1) \<Rightarrow>
                  (let us' = (if to_parse < 6 then us * 10 ^ (6 - to_parse) else us);
                       rest = dropWhile is_digit (drop q1 s)
                   in Some ((case rest of [] \<Rightarrow> False | c # cs \<Rightarrow> c \<noteq> CHR 0x00),
                            vals @ [us']))))"

definition is_tz_char :: "char \<Rightarrow> bool" where
  "is_tz_char c = (c = CHR ''Z'' \<or> c = CHR ''+'' \<or> c = CHR ''-'')"

definition tzinfo_pos :: "string \<Rightarrow> nat" where
  \<comment> \<open>the first of \<^verbatim>\<open>Z\<close>, \<^verbatim>\<open>+\<close>, \<^verbatim>\<open>-\<close>, else the end; the scan looks at one character
      at least\<close>
  "tzinfo_pos s = (if s = [] then 1 else length (takeWhile (\<lambda>c. \<not> is_tz_char c) s))"

definition parse_isoformat_time :: "string \<Rightarrow> (nat list \<times> (int \<times> int) option) option" where
  \<comment> \<open>the time fields and, when a zone is given, its offset in seconds and microseconds\<close>
  "parse_isoformat_time s =
     (let len = length s; tz = tzinfo_pos s
      in case parse_hh_mm_ss_ff s 0 tz of
           None \<Rightarrow> None
         | Some (rv, t) \<Rightarrow>
             if tz = len then (if rv then None else Some (t, None))
             else if char_at s tz = CHR ''Z'' then
               (if char_at s (tz + 1) \<noteq> CHR 0x00 then None else Some (t, Some (0, 0)))
             else
               (let tzsign = (if char_at s tz = CHR ''-'' then - 1 else 1 :: int)
                in case parse_hh_mm_ss_ff s (tz + 1) len of
                     None \<Rightarrow> None
                   | Some (rv2, z) \<Rightarrow>
                       if rv2 then None
                       else Some (t, Some (tzsign * int (z ! 0 * 3600 + z ! 1 * 60 + z ! 2),
                                           tzsign * int (z ! 3)))))"

definition tzinfo_from_isoformat_results :: "(int \<times> int) option \<Rightarrow> exn + int option" where
  \<comment> \<open>an offset of zero seconds is UTC, whatever its microseconds\<close>
  "tzinfo_from_isoformat_results r =
     (case r of
        None \<Rightarrow> Inr None
      | Some (tzoffset, tz_useconds) \<Rightarrow>
          if tzoffset = 0 then Inr (Some 0)
          else (case new_timezone (tzoffset * 1000000 + tz_useconds) of
                  Inl e \<Rightarrow> Inl e
                | Inr off \<Rightarrow> Inr (Some off)))"

definition fromisoformat :: "string \<Rightarrow> exn + pydatetime" where
  "fromisoformat dtstr =
     (let len = length dtstr
      in if len < 7 then Inl ValueError
         else (case find_isoformat_datetime_separator dtstr of
                 None \<Rightarrow> Inl ValueError
               | Some separator_location \<Rightarrow>
                   (case parse_isoformat_date dtstr separator_location of
                      None \<Rightarrow> Inl ValueError
                    | Some (y, m, d) \<Rightarrow>
                        if separator_location < len then
                          (case parse_isoformat_time (drop (separator_location + 1) dtstr) of
                             None \<Rightarrow> Inl ValueError
                           | Some (t, z) \<Rightarrow>
                               (case tzinfo_from_isoformat_results z of
                                  Inl e \<Rightarrow> Inl e
                                | Inr tz \<Rightarrow> new_datetime y m d (t ! 0) (t ! 1) (t ! 2) (t ! 3) tz))
                        else new_datetime y m d 0 0 0 0 None)))"


subsection \<open>\<^verbatim>\<open>strftime('%Y-%m-%d %H:%M:%S%z')\<close>\<close>

definition digit_char :: "nat \<Rightarrow> char" where
  "digit_char n = ''0123456789'' ! (n mod 10)"

fun zero_pad :: "nat \<Rightarrow> nat \<Rightarrow> string" where
  \<comment> \<open>\<^verbatim>\<open>'%0kd' % n\<close>: at least \<open>k\<close> digits\<close>
  "zero_pad 0 n = (if n = 0 then [] else zero_pad 0 (n div 10) @ [digit_char n])"
| "zero_pad (Suc k) n = zero_pad k (n div 10) @ [digit_char n]"

declare zero_pad.simps [simp del]

definition format_utcoffset :: "int option \<Rightarrow> string" where
  "format_utcoffset tz =
     (case tz of
        None \<Rightarrow> []
      | Some off \<Rightarrow>
          (let sign = (if off < 0 then CHR ''-'' else CHR ''+'');
               a = nat \<bar>off\<bar>;
               microseconds = a mod 1000000;
               total_seconds = a div 1000000;
               seconds = total_seconds mod 60;
               minutes = (total_seconds div 60) mod 60;
               hours = total_seconds div 3600
           in if microseconds \<noteq> 0
              then sign # zero_pad 2 hours @ zero_pad 2 minutes @ zero_pad 2 seconds @
                   ''.'' @ zero_pad 6 microseconds
              else if seconds \<noteq> 0
              then sign # zero_pad 2 hours @ zero_pad 2 minutes @ zero_pad 2 seconds
              else sign # zero_pad 2 hours @ zero_pad 2 minutes))"

definition strftime_seconds :: "pydatetime \<Rightarrow> string" where
  \<comment> \<open>\<^verbatim>\<open>dt.strftime('%Y-%m-%d %H:%M:%S')\<close>, the format of line 144\<close>
  "strftime_seconds dt =
     zero_pad 4 (dt_year dt) @ ''-'' @ zero_pad 2 (dt_month dt) @ ''-'' @ zero_pad 2 (dt_day dt) @
     '' '' @ zero_pad 2 (dt_hour dt) @ '':'' @ zero_pad 2 (dt_minute dt) @ '':'' @
     zero_pad 2 (dt_second dt)"

definition strftime :: "pydatetime \<Rightarrow> string" where
  \<comment> \<open>\<^verbatim>\<open>dt.strftime('%Y-%m-%d %H:%M:%S%z')\<close>, the format of line 41\<close>
  "strftime dt = strftime_seconds dt @ format_utcoffset (dt_utcoffset dt)"

definition clean_timestamp :: "pyval \<Rightarrow> exn + pyval" where
  \<comment> \<open>lines 36-44\<close>
  "clean_timestamp v =
     (if truthy v \<and> is_str v then
        (case v of
           PStr s \<Rightarrow>
             (case fromisoformat (replace CHR '' '' ''T'' (replace CHR ''Z'' ''+00:00'' s)) of
                Inr dt \<Rightarrow> Inr (PStr (strftime dt))
              | Inl ValueError \<Rightarrow> Inr PNone
              | Inl TypeError \<Rightarrow> Inr PNone
              | Inl e \<Rightarrow> Inl e)
         | _ \<Rightarrow> Inr v)
      else Inr v)"


definition clean_cell :: "string \<Rightarrow> pyval \<Rightarrow> exn + pyval" where
  \<comment> \<open>lines 90-94\<close>
  "clean_cell name v =
     (if endswith name ''_updated'' \<or> endswith name ''_date'' then clean_timestamp v
      else if contains name ''shares'' \<or> contains name ''id'' then clean_integer v
      else Inr v)"


section \<open>The run\<close>

text \<open>
  What the script reads: the names listed in \<^verbatim>\<open>sqlite_master\<close>, the answer of
  \<^verbatim>\<open>PRAGMA table_info\<close> and the rows of every table, the project root found on disk,
  and the clock at the moment the schema file is written. The text of the two SQL files
  is the result; an exception raised while a table is exported ends the run before
  either file is written. The encoding of the CSV files is left to the \<^verbatim>\<open>csv\<close> module
  and is not part of the model.
\<close>

record database =
  master :: "string list"
  table_info :: "string \<Rightarrow> column list"
  table_rows :: "string \<Rightarrow> pyval list list"

record artifacts =
  schema_file :: string
  import_file :: string

fun clean_row :: "(string \<times> pyval) list \<Rightarrow> exn + pyval list" where
  \<comment> \<open>lines 88-94, over \<^verbatim>\<open>zip(column_names, row)\<close>\<close>
  "clean_row [] = Inr []"
| "clean_row ((name, v) # rest) =
     (case clean_cell name v of
        Inl e \<Rightarrow> Inl e
      | Inr v' \<Rightarrow> (case clean_row rest of Inl e \<Rightarrow> Inl e | Inr vs \<Rightarrow> Inr (v' # vs)))"

fun clean_rows :: "string list \<Rightarrow> pyval list list \<Rightarrow> exn + pyval list list" where
  \<comment> \<open>lines 86-95\<close>
  "clean_rows column_names [] = Inr []"
| "clean_rows column_names (row # rows) =
     (case clean_row (zip column_names row) of
        Inl e \<Rightarrow> Inl e
      | Inr r \<Rightarrow> (case clean_rows column_names rows of Inl e \<Rightarrow> Inl e | Inr rs \<Rightarrow> Inr (r # rs)))"

fun process_tables ::
  "string \<Rightarrow> database \<Rightarrow> string list \<Rightarrow> string list \<Rightarrow> string list \<Rightarrow>
   exn + string list \<times> string list" where
  \<comment> \<open>the loop of lines 73-140 over the tables left, with \<^verbatim>\<open>schema_sql\<close> and
      \<^verbatim>\<open>import_sql\<close> as built so far\<close>
  "process_tables output_dir db [] schema_sql import_sql = Inr (schema_sql, import_sql)"
| "process_tables output_dir db (table # tables) schema_sql import_sql =
     (let columns = table_info db table;
          csv_path = path_join output_dir (table @ ''.csv'')
      in case clean_rows (map col_name columns) (table_rows db table) of
           Inl e \<Rightarrow> Inl e
         | Inr cleaned_rows \<Rightarrow>
             process_tables output_dir db tables
               (schema_sql @ [create_table table columns])
               (import_sql @ import_block csv_path table columns))"

definition foreign_key_tables :: "string list" where
  "foreign_key_tables =
     [''financials'', ''capital_structure'', ''mineral_estimates'', ''production'', ''costs'',
      ''valuation_metrics'', ''company_urls'', ''stock_prices'']"

definition foreign_key_line :: "string \<Rightarrow> string" where
  \<comment> \<open>lines 147-154, one per table\<close>
  "foreign_key_line t =
     ''ALTER TABLE '' @ t @
     '' ADD CONSTRAINT fk_company_id FOREIGN KEY (company_id) REFERENCES companies(company_id) ON DELETE SET NULL;'' @
     newline"

definition schema_header :: "pydatetime \<Rightarrow> string" where
  \<comment> \<open>line 144\<close>
  "schema_header now =
     ''-- PostgreSQL Schema Generated on '' @ strftime_seconds now @ newline @ newline"

definition schema_text :: "pydatetime \<Rightarrow> string list \<Rightarrow> string" where
  \<comment> \<open>lines 143-154\<close>
  "schema_text now schema_sql =
     schema_header now @ join (newline @ newline) schema_sql @
     newline @ newline @ ''-- Foreign Key Constraints'' @ newline @
     concat (map foreign_key_line foreign_key_tables)"

definition import_text :: "string list \<Rightarrow> string" where
  \<comment> \<open>line 159\<close>
  "import_text import_sql = join newline import_sql"

definition run :: "string \<Rightarrow> pydatetime \<Rightarrow> database \<Rightarrow> exn + artifacts" where
  "run project_root now db =
     (let output_dir = path_join project_root ''exported_csvs'';
          tables = move_companies_first (tables_of_master (master db))
      in case process_tables output_dir db tables [] [] of
           Inl e \<Rightarrow> Inl e
         | Inr (schema_sql, import_sql) \<Rightarrow>
             Inr \<lparr>schema_file = schema_text now schema_sql,
                  import_file = import_text import_sql\<rparr>)"


section \<open>What SQLite promises about \<^verbatim>\<open>table_info\<close>\<close>




section \<open>Sample inputs\<close>

text \<open>
  A table whose primary key is the pair \<^verbatim>\<open>(a, b)\<close>, as \<^verbatim>\<open>PRAGMA table_info\<close> reports
  it, a table with no key, and the two-table database of the end-to-end scenario:
  \<^verbatim>\<open>companies(company_id, name)\<close> and \<^verbatim>\<open>financials(id, company_id, revenue)\<close>, listed
  with \<^verbatim>\<open>financials\<close> first.
\<close>

definition composite_key_columns :: "column list" where
  "composite_key_columns =
     [\<lparr>col_name = ''a'', col_type = ''INTEGER'', not_null = 1, dflt_value = None, pk = 1\<rparr>,
      \<lparr>col_name = ''b'', col_type = ''INTEGER'', not_null = 1, dflt_value = None, pk = 2\<rparr>,
      \<lparr>col_name = ''c'', col_type = ''TEXT'', not_null = 0, dflt_value = None, pk = 0\<rparr>]"

definition companies_columns :: "column list" where
  "companies_columns =
     [\<lparr>col_name = ''company_id'', col_type = ''INTEGER'', not_null = 0, dflt_value = None, pk = 1\<rparr>,
      \<lparr>col_name = ''name'', col_type = ''TEXT'', not_null = 1, dflt_value = None, pk = 0\<rparr>]"

definition financials_columns :: "column list" where
  "financials_columns =
     [\<lparr>col_name = ''id'', col_type = ''INTEGER'', not_null = 0, dflt_value = None, pk = 1\<rparr>,
      \<lparr>col_name = ''company_id'', col_type = ''INTEGER'', not_null = 0, dflt_value = None, pk = 0\<rparr>,
      \<lparr>col_name = ''revenue'', col_type = ''REAL'', not_null = 0, dflt_value = None, pk = 0\<rparr>]"

definition keyless_columns :: "column list" where
  "keyless_columns =
     [\<lparr>col_name = ''company_id'', col_type = ''INTEGER'', not_null = 0, dflt_value = None, pk = 0\<rparr>,
      \<lparr>col_name = ''note'', col_type = [], not_null = 0, dflt_value = Some ''0'', pk = 0\<rparr>]"

definition sample_db :: database where
  "sample_db =
     \<lparr>master = [''financials'', ''sqlite_sequence'', ''companies''],
      table_info = (\<lambda>t. if t = ''companies'' then companies_columns
                         else if t = ''financials'' then financials_columns else []),
      table_rows = (\<lambda>t. if t = ''companies'' then [[PInt 1, PStr ''Acme Gold'']]
                         else if t = ''financials''
                         then [[PInt 1, PInt 1, PFloat (Finite 5)]]
                         else [])\<rparr>"

definition sample_root :: string where
  "sample_root = ''/home/u/gold-silver-analysis-v2''"

definition clock_a :: pydatetime where
  "clock_a = \<lparr>dt_year = 2025, dt_month = 3, dt_day = 9, dt_hour = 7, dt_minute = 5,
              dt_second = 1, dt_microsecond = 250000, dt_utcoffset = None\<rparr>"

definition clock_b :: pydatetime where
  "clock_b = \<lparr>dt_year = 2025, dt_month = 3, dt_day = 9, dt_hour = 7, dt_minute = 5,
              dt_second = 2, dt_microsecond = 0, dt_utcoffset = None\<rparr>"


section \<open>Facts about text\<close>

lemma join_Cons: "join sep (x # xs) = x @ concat (map (\<lambda>y. sep @ y) xs)"
  by (induction xs arbitrary: x) simp_all

lemma spaces_unfold:
  "spaces 12 = ''            ''" "spaces 8 = ''        ''" "spaces 4 = ''    ''"
  by (simp_all add: spaces_def eval_nat_numeral)

lemma rstrip_no_trailing: "rstrip c s = [] \<or> last (rstrip c s) \<noteq> c"
proof (cases "dropWhile (\<lambda>d. d = c) (rev s)")
  case Nil
  then show ?thesis by (simp add: rstrip_def)
next
  case (Cons a as)
  then have "a \<noteq> c"
    using hd_dropWhile [of "\<lambda>d. d = c" "rev s"] by auto
  with Cons show ?thesis by (simp add: rstrip_def)
qed

lemma rstrip_append_other: "x \<noteq> c \<Longrightarrow> rstrip c (s @ [x]) = s @ [x]"
  by (simp add: rstrip_def)

lemma rstrip_append_same: "rstrip c (s @ [c]) = rstrip c s"
  by (simp add: rstrip_def)


lemma zero_pad_0_0: "zero_pad 0 0 = []"
  by (simp add: zero_pad.simps)

lemma zero_pad_2: "n < 100 \<Longrightarrow> zero_pad 2 n = [digit_char (n div 10), digit_char n]"
  by (simp add: numeral_2_eq_2 zero_pad.simps(2) zero_pad_0_0 div_mult2_eq [symmetric])

lemma zero_pad_4:
  "n < 10000 \<Longrightarrow>
     zero_pad 4 n =
       [digit_char (n div 1000), digit_char (n div 100), digit_char (n div 10), digit_char n]"
proof -
  assume n: "n < 10000"
  have "zero_pad (Suc (Suc (Suc (Suc 0)))) n =
          [digit_char (n div 1000), digit_char (n div 100), digit_char (n div 10), digit_char n]"
    using n by (simp add: zero_pad.simps(2) zero_pad_0_0 div_mult2_eq [symmetric])
  moreover have "(4::nat) = Suc (Suc (Suc (Suc 0)))" by simp
  ultimately show ?thesis by metis
qed

lemma zero_pad_6:
  "n < 1000000 \<Longrightarrow>
     zero_pad 6 n =
       [digit_char (n div 100000), digit_char (n div 10000), digit_char (n div 1000),
        digit_char (n div 100), digit_char (n div 10), digit_char n]"
proof -
  assume n: "n < 1000000"
  have "zero_pad (Suc (Suc (Suc (Suc (Suc (Suc 0)))))) n =
          [digit_char (n div 100000), digit_char (n div 10000), digit_char (n div 1000),
           digit_char (n div 100), digit_char (n div 10), digit_char n]"
    using n by (simp add: zero_pad.simps(2) zero_pad_0_0 div_mult2_eq [symmetric])
  moreover have "(6::nat) = Suc (Suc (Suc (Suc (Suc (Suc 0)))))" by simp
  ultimately show ?thesis by metis
qed

section \<open>Schema translation\<close>


lemma table_sql_no_key:
  assumes "pk_columns columns = []" and "columns \<noteq> []"
  shows "table_sql table columns =
           (''CREATE TABLE IF NOT EXISTS '' @ table @ '' ('') # map column_line (butlast columns) @
           [rstrip CHR '','' (column_line (last columns)), '');'']"
  using assms by (simp add: table_sql_def Let_def map_butlast last_map butlast_append)

lemma table_sql_key:
  assumes "pk_columns columns \<noteq> []"
  shows "table_sql table columns =
           (''CREATE TABLE IF NOT EXISTS '' @ table @ '' ('') # map column_line columns @
           [pkey_line table (pk_columns columns), '');'']"
  using assms by (simp add: table_sql_def Let_def)


section \<open>Load script\<close>




section \<open>The run\<close>

lemma process_tables_Inr:
  "process_tables output_dir db tables schema_sql import_sql = Inr (ss, is) \<Longrightarrow>
     ss = schema_sql @ map (\<lambda>t. create_table t (table_info db t)) tables \<and>
     is = import_sql @
          concat (map (\<lambda>t. import_block (path_join output_dir (t @ ''.csv'')) t (table_info db t))
                    tables)"
proof (induction tables arbitrary: schema_sql import_sql)
  case Nil
  then show ?case by simp
next
  case (Cons t ts)
  from Cons.prems have
    "process_tables output_dir db ts (schema_sql @ [create_table t (table_info db t)])
       (import_sql @ import_block (path_join output_dir (t @ ''.csv'')) t (table_info db t)) =
     Inr (ss, is)"
    by (auto simp add: Let_def split: sum.splits)
  from Cons.IH [OF this] show ?case by simp
qed

lemma process_tables_Inl_indep:
  "process_tables output_dir db tables schema_sql import_sql = Inl e \<Longrightarrow>
     process_tables output_dir db tables schema_sql' import_sql' = Inl e"
  by (induction tables arbitrary: schema_sql import_sql schema_sql' import_sql')
     (auto simp add: Let_def split: sum.splits)

lemma run_Inr:
  assumes "run project_root now db = Inr out"
  shows "schema_file out =
           schema_text now (map (\<lambda>t. create_table t (table_info db t))
                              (move_companies_first (tables_of_master (master db)))) \<and>
         import_file out =
           import_text
             (concat (map (\<lambda>t. import_block
                                  (path_join (path_join project_root ''exported_csvs'') (t @ ''.csv''))
                                  t (table_info db t))
                        (move_companies_first (tables_of_master (master db)))))"
proof -
  let ?od = "path_join project_root ''exported_csvs''"
  let ?ts = "move_companies_first (tables_of_master (master db))"
  from assms obtain ss "is" where p: "process_tables ?od db ?ts [] [] = Inr (ss, is)"
    and out: "out = \<lparr>schema_file = schema_text now ss, import_file = import_text is\<rparr>"
    by (auto simp add: run_def Let_def split: sum.splits)
  from process_tables_Inr [OF p] out show ?thesis by simp
qed



section \<open>Integer cleaning on sample values\<close>

lemma float_of_string_number:
  assumes "strip s = t" and "underscores_ok (CHR 0x00) t"
    and "split_sign (filter (\<lambda>c. c \<noteq> CHR ''_'') t) = (neg, r)"
    and "upper r \<noteq> ''INF''" and "upper r \<noteq> ''INFINITY''" and "upper r \<noteq> ''NAN''"
  shows "float_of_string s =
           (case parse_number r of
              None \<Rightarrow> Inl ValueError
            | Some q \<Rightarrow> Inr (round_double (if neg then - q else q)))"
  using assms by (simp add: float_of_string_def)

lemma round_double_overflow: "2 ^ 1024 - 2 ^ 970 \<le> q \<Longrightarrow> round_double q = PosInf"
  by (simp add: round_double_def)

lemma parse_number_1e400: "parse_number ''1e400'' = Some (10 ^ 400)"
  by (simp add: parse_number_def parse_exponent_def split_sign_def is_digit_def digits_val_def
      digit_val_def)

lemma float_1e400: "float_of_string ''1e400'' = Inr PosInf"
  by (subst float_of_string_number [where t = "''1e400''" and neg = False and r = "''1e400''"])
     (simp_all add: strip_def is_space_def is_digit_def split_sign_def upper_def upper_char_def
        parse_number_1e400 round_double_overflow)

lemma clean_integer_1e400: "clean_integer (PStr ''1e400'') = Inl OverflowError"
  by (simp add: clean_integer_def py_float_def float_1e400 py_int_def)

lemma clean_integer_inf: "clean_integer (PFloat PosInf) = Inl OverflowError"
  by (simp add: clean_integer_def py_float_def py_int_def)

lemma parse_number_42: "parse_number ''42'' = Some 42"
  by (simp add: parse_number_def parse_exponent_def is_digit_def digits_val_def digit_val_def)

lemma round_double_42: "round_double 42 = Finite 42"
proof -
  have "floor_log2 42 = 5" by (simp add: floor_log2_def bit_length.simps)
  then have "round_pos 42 = 42"
    by (simp add: round_pos_def pow2_def round_half_even_def)
  then show ?thesis by (simp add: round_double_def)
qed

lemma float_42: "float_of_string ''42'' = Inr (Finite 42)"
  by (subst float_of_string_number [where t = "''42''" and neg = False and r = "''42''"])
     (simp_all add: strip_def is_space_def is_digit_def split_sign_def upper_def upper_char_def
        parse_number_42 round_double_42)

lemma clean_integer_42: "clean_integer (PStr ''42'') = Inr (PInt 42)"
  by (simp add: clean_integer_def py_float_def float_42 py_int_def)

lemma float_abc: "float_of_string ''abc'' = Inl ValueError"
  by (subst float_of_string_number [where t = "''abc''" and neg = False and r = "''abc''"])
     (simp_all add: strip_def is_space_def is_digit_def split_sign_def upper_def upper_char_def
        parse_number_def)

lemma clean_integer_abc: "clean_integer (PStr ''abc'') = Inr PNone"
  by (simp add: clean_integer_def py_float_def float_abc)

lemma clean_integer_None: "clean_integer PNone = Inr PNone"
  by (simp add: clean_integer_def)

lemma round_double_1: "round_double 1 = Finite 1"
proof -
  have "floor_log2 1 = 0" by (simp add: floor_log2_def bit_length.simps)
  then have "round_pos 1 = 1"
    by (simp add: round_pos_def pow2_def round_half_even_def)
  then show ?thesis by (simp add: round_double_def)
qed

lemma clean_integer_1: "clean_integer (PInt 1) = Inr (PInt 1)"
  by (simp add: clean_integer_def py_float_def round_double_1 py_int_def)

lemma parse_number_1e19: "parse_number ''1e19'' = Some (10 ^ 19)"
  by (simp add: parse_number_def parse_exponent_def split_sign_def is_digit_def digits_val_def
      digit_val_def)

lemma round_double_1e19: "round_double (10 ^ 19) = Finite (10 ^ 19)"
proof -
  have "floor_log2 (10 ^ 19) = 63" by (simp add: floor_log2_def bit_length.simps)
  then have "round_pos (10 ^ 19) = 10 ^ 19"
    by (simp add: round_pos_def pow2_def round_half_even_def)
  then show ?thesis by (simp add: round_double_def)
qed

lemma float_1e19: "float_of_string ''1e19'' = Inr (Finite (10 ^ 19))"
  by (subst float_of_string_number [where t = "''1e19''" and neg = False and r = "''1e19''"])
     (simp_all only: parse_number_1e19 round_double_1e19 option.case if_False,
      simp_all add: strip_def is_space_def is_digit_def split_sign_def upper_def upper_char_def)

lemma clean_integer_out_of_range:
  assumes "py_float v = Inr (Finite q)"
    and "(if 0 \<le> q then \<lfloor>q\<rfloor> else \<lceil>q\<rceil>) < - (2 ^ 63) \<or>
         2 ^ 63 - 1 < (if 0 \<le> q then \<lfloor>q\<rfloor> else \<lceil>q\<rceil>)"
  shows "clean_integer v = Inr PNone"
  using assms by (auto simp add: clean_integer_def py_int_def py_float_def split: pyval.splits)

lemma clean_integer_1e19: "clean_integer (PStr ''1e19'') = Inr PNone"
  by (rule clean_integer_out_of_range [where q = "10 ^ 19"])
     (simp_all add: py_float_def float_1e19)


section \<open>The sample run\<close>

lemma sample_tables:
  "move_companies_first (tables_of_master (master sample_db)) = [''companies'', ''financials'']"
  by (simp add: move_companies_first_def tables_of_master_def sample_db_def)

lemma clean_cell_id: "clean_cell ''id'' (PInt 1) = Inr (PInt 1)"
  by (simp add: clean_cell_def endswith_def contains_def suffix_to_prefix clean_integer_1)

lemma clean_cell_company_id: "clean_cell ''company_id'' (PInt 1) = Inr (PInt 1)"
  by (simp add: clean_cell_def endswith_def contains_def suffix_to_prefix clean_integer_1)

lemma clean_cell_name: "clean_cell ''name'' v = Inr v"
  by (simp add: clean_cell_def endswith_def contains_def suffix_to_prefix sublist_code)

lemma clean_cell_revenue: "clean_cell ''revenue'' v = Inr v"
  by (simp add: clean_cell_def endswith_def contains_def suffix_to_prefix sublist_code)

lemma sample_rows_companies:
  "clean_rows (map col_name companies_columns)
     (table_rows sample_db ''companies'') = Inr [[PInt 1, PStr ''Acme Gold'']]"
  by (simp add: sample_db_def companies_columns_def clean_cell_company_id clean_cell_name)

lemma sample_rows_financials:
  "clean_rows (map col_name financials_columns)
     (table_rows sample_db ''financials'') = Inr [[PInt 1, PInt 1, PFloat (Finite 5)]]"
  by (simp add: sample_db_def financials_columns_def clean_cell_company_id clean_cell_id
      clean_cell_revenue)

lemma sample_run:
  "run sample_root now sample_db =
     Inr \<lparr>schema_file =
            schema_text now [create_table ''companies'' companies_columns,
                             create_table ''financials'' financials_columns],
          import_file =
            import_text
              (import_block ''/home/u/gold-silver-analysis-v2/exported_csvs/companies.csv''
                 ''companies'' companies_columns @
               import_block ''/home/u/gold-silver-analysis-v2/exported_csvs/financials.csv''
                 ''financials'' financials_columns)\<rparr>"
proof -
  have ti: "table_info sample_db ''companies'' = companies_columns"
    "table_info sample_db ''financials'' = financials_columns"
    by (simp_all add: sample_db_def)
  have pj: "path_join sample_root ''exported_csvs'' = ''/home/u/gold-silver-analysis-v2/exported_csvs''"
    by (simp add: path_join_def sample_root_def)
  show ?thesis
    unfolding run_def Let_def sample_tables pj
    by (simp add: Let_def sample_rows_companies sample_rows_financials ti path_join_def)
qed

lemma strftime_seconds_clock_a: "strftime_seconds clock_a = ''2025-03-09 07:05:01''"
  by (simp add: strftime_seconds_def clock_a_def zero_pad_2 zero_pad_4 digit_char_def)

lemma strftime_seconds_clock_b: "strftime_seconds clock_b = ''2025-03-09 07:05:02''"
  by (simp add: strftime_seconds_def clock_b_def zero_pad_2 zero_pad_4 digit_char_def)

lemma schema_text_eq_iff:
  "schema_text now1 ss = schema_text now2 ss \<longleftrightarrow> strftime_seconds now1 = strftime_seconds now2"
  by (simp add: schema_text_def schema_header_def)

lemma schema_text_tail:
  "drop (length (schema_header now)) (schema_text now ss) =
     join (newline @ newline) ss @ newline @ newline @ ''-- Foreign Key Constraints'' @ newline @
     concat (map foreign_key_line foreign_key_tables)"
  by (simp add: schema_text_def)

lemma run_import_indep:
  "map_sum id import_file (run project_root now1 db) =
   map_sum id import_file (run project_root now2 db)"
  by (simp add: run_def Let_def split: sum.splits)


section \<open>Determinism of the two SQL files\<close>

text \<open>
  C1, as the code has it. Two runs from the same project root against the same database
  end alike: both raise the same exception, or both write the same load script, whatever
  the clock says. The schema files agree from the end of the first line on; the first
  line carries the time of writing (line 144), so the whole files are equal exactly when
  the two clock readings print the same second.
\<close>

theorem rerun_same_source:
  "map_sum id import_file (run project_root now1 db) =
   map_sum id import_file (run project_root now2 db) \<and>
   (run project_root now1 db = Inr out1 \<and> run project_root now2 db = Inr out2 \<longrightarrow>
      (schema_file out1 = schema_file out2 \<longleftrightarrow> strftime_seconds now1 = strftime_seconds now2) \<and>
      drop (length (schema_header now1)) (schema_file out1) =
      drop (length (schema_header now2)) (schema_file out2))"
proof (intro conjI impI)
  show "map_sum id import_file (run project_root now1 db) =
        map_sum id import_file (run project_root now2 db)"
    by (rule run_import_indep)
next
  assume r: "run project_root now1 db = Inr out1 \<and> run project_root now2 db = Inr out2"
  from r run_Inr [of project_root now1 db out1] run_Inr [of project_root now2 db out2]
  show "schema_file out1 = schema_file out2 \<longleftrightarrow> strftime_seconds now1 = strftime_seconds now2"
    by (simp add: schema_text_eq_iff)
next
  assume r: "run project_root now1 db = Inr out1 \<and> run project_root now2 db = Inr out2"
  from r run_Inr [of project_root now1 db out1] run_Inr [of project_root now2 db out2]
  show "drop (length (schema_header now1)) (schema_file out1) =
        drop (length (schema_header now2)) (schema_file out2)"
    by (simp add: schema_text_tail)
qed

theorem rerun_same_source_witness:
  "map_sum id import_file (run sample_root clock_a sample_db) =
   map_sum id import_file (run sample_root clock_b sample_db) \<and>
   (\<exists>out1 out2. run sample_root clock_a sample_db = Inr out1 \<and>
      run sample_root clock_b sample_db = Inr out2 \<and>
      schema_file out1 \<noteq> schema_file out2 \<and>
      drop (length (schema_header clock_a)) (schema_file out1) =
      drop (length (schema_header clock_b)) (schema_file out2))"
proof -
  obtain out1 out2 where o: "run sample_root clock_a sample_db = Inr out1"
    "run sample_root clock_b sample_db = Inr out2"
    by (simp add: sample_run)
  from rerun_same_source [of sample_root clock_a sample_db clock_b out1 out2] o
  show ?thesis
    by (simp add: strftime_seconds_clock_a strftime_seconds_clock_b)
qed

text \<open>
  C1 as stated fails: the same database and root, written one second apart, give two
  different schema files.
\<close>

theorem schema_file_depends_on_clock:
  "map_sum id schema_file (run sample_root clock_a sample_db) \<noteq>
   map_sum id schema_file (run sample_root clock_b sample_db)"
  by (simp add: sample_run schema_text_eq_iff strftime_seconds_clock_a strftime_seconds_clock_b)


section \<open>Integer cleaning raises on an infinite float\<close>

text \<open>
  C2 at its failing input: \<^verbatim>\<open>float('1e400')\<close> is infinity, \<^verbatim>\<open>int\<close> of it raises
  \<^verbatim>\<open>OverflowError\<close>, and the handler of \<^verbatim>\<open>clean_integer\<close> catches \<^verbatim>\<open>ValueError\<close> and
  \<^verbatim>\<open>TypeError\<close> only: the exception leaves the function.
\<close>

theorem clean_integer_raises_OverflowError:
  "clean_integer (PStr ''1e400'') = Inl OverflowError"
  by (rule clean_integer_1e400)

text \<open>
  C3 on its four sample inputs: three of them clean as the claim says, and
  \<^verbatim>\<open>"1e400"\<close> does not become null.
\<close>

theorem clean_integer_samples:
  "clean_integer (PStr ''42'') = Inr (PInt 42) \<and>
   clean_integer (PStr ''abc'') = Inr PNone \<and>
   clean_integer PNone = Inr PNone \<and>
   clean_integer (PStr ''1e19'') = Inr PNone \<and>
   clean_integer (PStr ''1e400'') \<noteq> Inr PNone"
  by (simp add: clean_integer_42 clean_integer_abc clean_integer_None clean_integer_1e19
      clean_integer_1e400)


section \<open>Type mapping\<close>





section \<open>The root table first\<close>




section \<open>The pruning statement\<close>




section \<open>The primary-key clause\<close>

text \<open>
  C9 at its failing input: the key of the table is \<^verbatim>\<open>(a, b)\<close>, and the constraint lists
  \<^verbatim>\<open>a\<close> alone, because line 102 keeps the columns whose position is 1.
\<close>

theorem composite_key_lists_first_column_only:
  "table_sql ''t'' composite_key_columns =
     [''CREATE TABLE IF NOT EXISTS t ('',
      ''    a BIGSERIAL,'',
      ''    b BIGSERIAL,'',
      ''    c TEXT,'',
      ''    CONSTRAINT t_pkey PRIMARY KEY (a)'',
      '');'']"
  by (simp add: table_sql_def composite_key_columns_def pk_columns_def column_line_def
      pkey_line_def map_sqlite_to_postgres_def upper_def upper_char_def spaces_unfold Let_def)

lemma no_key_no_clause:
  "table_sql ''notes'' keyless_columns =
     [''CREATE TABLE IF NOT EXISTS notes ('',
      ''    company_id BIGINT,'',
      ''    note TEXT DEFAULT 0'',
      '');'']"
  by (simp add: table_sql_def keyless_columns_def pk_columns_def column_line_def
      map_sqlite_to_postgres_def upper_def upper_char_def spaces_unfold Let_def rstrip_def)

end
